theory Spec2Isabelle
  imports Main "HOL-Library.AList"
begin

section \<open>JavaScript values\<close>

text \<open>
  A slot of a JavaScript object that is meant to hold a value of type \<open>'a\<close> can also
  hold \<open>undefined\<close> or \<open>null\<close>. HOL equality on \<open>'a js\<close> is the strict equality
  \<open>===\<close> of the source on these values.
\<close>

datatype 'a js = Undefined | Null | Val 'a

text \<open>
  An optional property of an object is \<open>'a js option\<close>: \<open>None\<close> when the object has no
  such property. Reading a property that is absent yields \<open>undefined\<close>.
\<close>

definition getp :: "'a js option \<Rightarrow> 'a js" where
  "getp p = (case p of None \<Rightarrow> Undefined | Some v \<Rightarrow> v)"

text \<open>
  What a property read \<open>obj[key]\<close> finds when the result is not \<open>undefined\<close>: an own
  property of the object, or a member that the object inherits from its prototype,
  named by its key.
\<close>

datatype 'a member = Own 'a | Inherited string

text \<open>
  String conversion, as applied by \<open>+\<close> on strings and by a property access
  \<open>obj[key]\<close> to its key.
\<close>

fun to_string :: "string js \<Rightarrow> string" where
  "to_string Undefined = ''undefined''"
| "to_string Null = ''null''"
| "to_string (Val s) = s"

section \<open>WindowMessage.js\<close>

text \<open>
  The payload of a message is opaque to the routing code, except for the object
  \<open>{uuid: ..., type: ...}\<close> carried by a \<open>LOOKUP_FOUND\<close> answer.
\<close>

datatype payload = LookupInfo "string js" "string js" | Opaque string

record message =
  number :: int
  action :: int
  originType :: "string js"
  originUUID :: "string js"
  destinationType :: "string js option"
  destinationUUID :: "string js option"
  data :: "payload js option"
  authentication :: "string js option"
  hops :: "string list"

text \<open>
  The constructor. An argument that the caller leaves out is \<open>undefined\<close>. The four
  mandatory fields are assigned whatever was passed; each optional field is assigned only
  under its guard \<open>arg !== undefined\<close>.
\<close>

definition WindowMessage ::
  "int \<Rightarrow> int \<Rightarrow> string js \<Rightarrow> string js \<Rightarrow> string js \<Rightarrow> string js \<Rightarrow> payload js \<Rightarrow> string js
    \<Rightarrow> message" where
  "WindowMessage number' action' originType' originUUID' destinationType' destinationUUID'
      data' authentication' =
     \<lparr> number = number',
       action = action',
       originType = originType',
       originUUID = originUUID',
       destinationType = (if destinationType' \<noteq> Undefined then Some destinationType' else None),
       destinationUUID = (if destinationUUID' \<noteq> Undefined then Some destinationUUID' else None),
       data = (if data' \<noteq> Undefined then Some data' else None),
       authentication = (if authentication' \<noteq> Undefined then Some authentication' else None),
       hops = [] \<rparr>"

definition READY :: int where "READY = 0"
definition CLOSED :: int where "CLOSED = 1"
definition LOOKUP :: int where "LOOKUP = 2"
definition MESSAGE :: int where "MESSAGE = 3"
definition BROADCAST :: int where "BROADCAST = 4"
definition LOOKUP_FOUND :: int where "LOOKUP_FOUND = 5"
definition LOOKUP_NOT_FOUND :: int where "LOOKUP_NOT_FOUND = 6"
definition CONNECT :: int where "CONNECT = 7"

section \<open>Sessions, the manager and what a handler does\<close>

text \<open>
  \<open>WindowSession.js\<close> and \<open>EventManager.js\<close> are imported by
  \<open>WindowManager.js\<close> but are not part of the sources. A session is the record of
  the fields that \<open>WindowManager.js\<close> reads and writes; \<open>ident\<close> is the identity
  of the object (two sessions are the same object iff they have the same \<open>ident\<close>),
  and \<open>gateway\<close> refers to the object assigned to it: another session, by its
  identity, or an inherited member. A window handle is named by a string. A callback is named by a number; a slot that holds \<open>null\<close> is \<open>None\<close>.
\<close>

datatype session_status = CONNECTING | WAITING_READY | STATUS_READY | STATUS_CLOSED

type_synonym callback = nat

record WindowSession =
  ident :: nat
  uuid :: "string js"
  type :: "string js"
  status :: session_status
  gateway :: "nat member option"
  window :: "string option"
  url :: "string js"
  received :: "message list"
  onMessage :: "callback option"
  onBroadcastMessage :: "callback option"
  onClose :: "callback option"

text \<open>
  Modelled from the spec: the constructor \<open>new WindowSession(manager)\<close>
  (\<open>WindowSession.js\<close> is missing). A session is created in state CONNECTING, bound to
  neither a transport handle nor a gateway, with empty callback slots and an empty
  received-message queue; its uuid and type are not known yet. The argument is the
  identity of the new object.
\<close>

definition new_WindowSession :: "nat \<Rightarrow> WindowSession" where
  "new_WindowSession n =
     \<lparr> ident = n, uuid = Null, type = Null, status = CONNECTING, gateway = None,
       window = None, url = Null, received = [], onMessage = None,
       onBroadcastMessage = None, onClose = None \<rparr>"

text \<open>
  Modelled from the spec: \<open>EventManager\<close> (\<open>EventManager.js\<close> is missing) is the
  event-subscription adapter with \<open>add\<close>, \<open>create\<close> and \<open>destroy\<close>; the record
  keeps whether its handlers are attached. It has no other property, so reading
  \<open>type\<close> or \<open>uuid\<close> from it yields \<open>undefined\<close>.
\<close>

record EventManager =
  attached :: bool

definition EventManager_property :: "EventManager \<Rightarrow> string \<Rightarrow> string js" where
  "EventManager_property em name = Undefined"

text \<open>
  The manager. \<open>sessions\<close> is the object used as a map from uuid to session, as the
  list of its own properties in the order \<open>for ... in\<close> enumerates them (for uuids as
  \<open>generateUUID\<close> makes them, the order of insertion). What a read of this object
  finds besides its own properties is in \<open>session_at\<close> below. \<open>next_ident\<close> is the
  identity the next constructed session gets.
\<close>

record WindowManager =
  wm_type :: "string js"
  wm_uuid :: string
  sessions :: "(string \<times> WindowSession) list"
  waitingSessions :: "WindowSession list"
  wm_onBroadcastMessage :: "callback option"
  wm_onMessage :: "callback option"
  manager :: EventManager
  next_ident :: nat

text \<open>
  What a handler does besides changing the manager is a list of effects, in the order
  in which they happen: console output, calls of callbacks, calls of methods of
  \<open>WindowSession\<close> (whose bodies are not in the sources: the call is recorded with the
  session it is made on), and an exception that leaves the handler.
\<close>

datatype level = LOG | WARN | ERROR

datatype js_error = TypeError | ReferenceError

datatype jsarg = AStr "string js" | AData "payload js"

datatype effect =
    Console level string
  | Send WindowSession message
  | SetStatus WindowSession session_status
  | WaitReady WindowSession
  | Acknowledge WindowSession
  | Connect WindowSession
  | WindowOpen "string js"
  | Call callback "jsarg list"
  | OnFinish "WindowSession member js" "string js" "string js"
  | Uncaught js_error

text \<open>\<open>if(slot !== null) slot(args)\<close>: the callback in a slot is called when there is one.\<close>

definition invoke :: "callback option \<Rightarrow> jsarg list \<Rightarrow> effect list" where
  "invoke slot args = (case slot of Some f \<Rightarrow> [Call f args] | None \<Rightarrow> [])"

section \<open>WindowManager.js: the message handler\<close>

text \<open>
  The table is created as \<open>{}\<close> (line 73), a plain object, so it inherits the members of
  \<open>Object.prototype\<close>. They are not enumerable, so \<open>for ... in\<close> does not see them,
  but a property read finds them. These are their names.
\<close>

definition Object_prototype :: "string list" where
  "Object_prototype =
     [''constructor'', ''__defineGetter__'', ''__defineSetter__'', ''hasOwnProperty'',
      ''__lookupGetter__'', ''__lookupSetter__'', ''isPrototypeOf'', ''propertyIsEnumerable'',
      ''toString'', ''valueOf'', ''__proto__'', ''toLocaleString'']"

text \<open>
  \<open>self.sessions[key]\<close>: the key is converted to a string. The result is the session
  stored under the key; or else the inherited member of that name (a function, or
  \<open>Object.prototype\<close> itself for \<open>__proto__\<close>), which is not \<open>undefined\<close> either; or
  else \<open>undefined\<close> (\<open>None\<close>). An inherited member has none of the properties of a
  session: calling \<open>send\<close> or \<open>setStatus\<close> on it, or \<open>received.push\<close>, throws a
  TypeError.
\<close>

definition session_at :: "WindowManager \<Rightarrow> string js \<Rightarrow> WindowSession member option" where
  "session_at self key =
     (case map_of (sessions self) (to_string key) of
        Some session \<Rightarrow> Some (Own session)
      | None \<Rightarrow>
          (if to_string key \<in> set Object_prototype then Some (Inherited (to_string key))
           else None))"

text \<open>\<open>array.indexOf(v)\<close>: the first position that holds \<open>v\<close>, or \<open>-1\<close>.\<close>

fun indexOf_from :: "string list \<Rightarrow> string \<Rightarrow> int \<Rightarrow> int" where
  "indexOf_from [] v i = - 1"
| "indexOf_from (x # xs) v i = (if x = v then i else indexOf_from xs v (i + 1))"

definition indexOf :: "string list \<Rightarrow> string js \<Rightarrow> int" where
  "indexOf xs v = (case v of Val s \<Rightarrow> indexOf_from xs s 0 | _ \<Rightarrow> - 1)"

text \<open>
  Messages that need to be redirected (lines 122 to 140). When the read of the table
  yields an inherited member, the hop is pushed and \<open>session.send(message)\<close> throws.
\<close>

definition dispatch_redirect :: "WindowManager \<Rightarrow> message \<Rightarrow> WindowManager \<times> effect list" where
  "dispatch_redirect self message =
     (let warned = Console WARN (''TabTalk: Destination UUID diferent from self, destination is ''
                     @ to_string (getp (destinationUUID message)))
      in case session_at self (getp (destinationUUID message)) of
           Some (Own session) \<Rightarrow>
             (let message' = message\<lparr>hops := hops message @ [wm_uuid self]\<rparr>
              in (self, [warned, Send session message',
                         Console LOG ''TabTalk: Redirected message to destination.'']))
         | Some (Inherited name) \<Rightarrow> (self, [warned, Uncaught TypeError])
         | None \<Rightarrow>
             (self, [warned,
                     Console WARN ''TabTalk: Unknown destination, cannot redirect message.'']))"

text \<open>
  Session closed (lines 145 to 158). When the read of the table yields an inherited
  member, \<open>session.setStatus(...)\<close> throws and the \<open>delete\<close> is not reached.
\<close>

definition dispatch_closed :: "WindowManager \<Rightarrow> message \<Rightarrow> WindowManager \<times> effect list" where
  "dispatch_closed self message =
     (case session_at self (originUUID message) of
        Some (Own session) \<Rightarrow>
          (self\<lparr>sessions := AList.delete (to_string (originUUID message)) (sessions self)\<rparr>,
           [SetStatus session STATUS_CLOSED])
      | Some (Inherited name) \<Rightarrow> (self, [Uncaught TypeError])
      | None \<Rightarrow> (self, [Console WARN ''TabTalk: Unknown closed origin session.'']))"

text \<open>
  Lookup (lines 160 to 198): the answer names the first session, in the order of the
  table, whose type is the requested one. When the read of the table for the origin
  yields an inherited member, \<open>session.send(response)\<close> throws.
\<close>

definition lookup_response :: "WindowManager \<Rightarrow> message \<Rightarrow> message" where
  "lookup_response self message =
     (case find (\<lambda>(i, session). type session = getp (destinationType message)) (sessions self) of
        Some (i, session) \<Rightarrow>
          WindowMessage 0 LOOKUP_FOUND (wm_type self) (Val (wm_uuid self)) Undefined Undefined
            (Val (LookupInfo (uuid session) (type session))) Undefined
      | None \<Rightarrow>
          WindowMessage 0 LOOKUP_NOT_FOUND (wm_type self) (Val (wm_uuid self)) Undefined Undefined
            Undefined Undefined)"

definition dispatch_lookup :: "WindowManager \<Rightarrow> message \<Rightarrow> WindowManager \<times> effect list" where
  "dispatch_lookup self message =
     (let logged = Console LOG (''TabTalk: WindowManager lookup request received from ''
                     @ to_string (originType message) @ ''.'');
          response = lookup_response self message
      in case session_at self (originUUID message) of
           Some (Own session) \<Rightarrow>
             (self, [logged, Send session response,
                     Console LOG ''TabTalk: Response to lookup request sent.''])
         | Some (Inherited name) \<Rightarrow> (self, [logged, Uncaught TypeError])
         | None \<Rightarrow> (self, [logged, Console WARN ''TabTalk: Unknown lookup origin session.'']))"

text \<open>
  Connect (lines 200 to 219). \<open>hops.pop()\<close> takes the last hop, or yields
  \<open>undefined\<close> on an empty list. The new session is not put into the table here.
  Whatever the read of the table yields for the gateway, a session or an inherited
  member, is assigned to \<open>session.gateway\<close>.
\<close>

definition hops_pop :: "string list \<Rightarrow> string js" where
  "hops_pop hs = (if hs = [] then Undefined else Val (last hs))"

definition dispatch_connect :: "WindowManager \<Rightarrow> message \<Rightarrow> WindowManager \<times> effect list" where
  "dispatch_connect self message =
     (case session_at self (hops_pop (hops message)) of
        Some gateway' \<Rightarrow>
          (let session = (new_WindowSession (next_ident self))
                 \<lparr>uuid := originUUID message, type := originType message,
                  gateway := Some (map_member ident gateway')\<rparr>
           in (self\<lparr>next_ident := Suc (next_ident self)\<rparr>,
               [WaitReady session, Acknowledge session,
                Console WARN ''TabTalk: Connect message received, creating a new session.'']))
      | None \<Rightarrow>
          (self, [Console ERROR
                    ''TabTalk: Connect message received, but the gateway is unknown.'']))"

text \<open>
  Broadcast (lines 221 to 248). The loop forwards the message, with the manager's uuid
  already pushed to its hops, to the sessions that are not in the hop list.
\<close>

fun forward_broadcast :: "message \<Rightarrow> (string \<times> WindowSession) list \<Rightarrow> effect list" where
  "forward_broadcast message [] = []"
| "forward_broadcast message ((i, session) # rest) =
     (if uuid session \<noteq> originUUID message \<and> indexOf (hops message) (uuid session) = - 1
      then Send session message #
           invoke (onBroadcastMessage session)
             [AData (getp (data message)), AStr (getp (authentication message))]
      else [])
     @ forward_broadcast message rest"

definition dispatch_broadcast :: "WindowManager \<Rightarrow> message \<Rightarrow> WindowManager \<times> effect list" where
  "dispatch_broadcast self message =
     (self,
      Console LOG (''TabTalk: WindowManager broadcast message received ''
                     @ to_string (originType message) @ ''.'')
      # invoke (wm_onBroadcastMessage self)
          [AData (getp (data message)), AStr (getp (authentication message))]
      @ forward_broadcast (message\<lparr>hops := hops message @ [wm_uuid self]\<rparr>) (sessions self))"

text \<open>
  Messages (lines 250 to 273). When the read of the table yields an inherited member,
  \<open>session.received\<close> is \<open>undefined\<close> and \<open>session.received.push(message)\<close> throws,
  after the global callback has been called.
\<close>

definition dispatch_message :: "WindowManager \<Rightarrow> message \<Rightarrow> WindowManager \<times> effect list" where
  "dispatch_message self message =
     (let logged = Console LOG (''TabTalk: WindowManager message received ''
                     @ to_string (originType message) @ ''.'');
          global = invoke (wm_onMessage self)
                     [AStr (originType message), AData (getp (data message)),
                      AStr (getp (authentication message))]
      in case session_at self (originUUID message) of
           Some (Own session) \<Rightarrow>
             (self\<lparr>sessions := AList.update (to_string (originUUID message))
                                  (session\<lparr>received := received session @ [message]\<rparr>)
                                  (sessions self)\<rparr>,
              logged # global
              @ invoke (onMessage session)
                  [AData (getp (data message)), AStr (getp (authentication message))])
         | Some (Inherited name) \<Rightarrow> (self, logged # global @ [Uncaught TypeError])
         | None \<Rightarrow> (self, logged # global @ [Console WARN ''TabTalk: Unknown origin session.'']))"

text \<open>
  The handler of the \<open>message\<close> event (lines 110 to 279), for the message in
  \<open>event.data\<close>.
\<close>

definition dispatch :: "WindowManager \<Rightarrow> message \<Rightarrow> WindowManager \<times> effect list" where
  "dispatch self message =
     (if action message = READY then (self, [])
      else if getp (destinationUUID message) \<noteq> Undefined
              \<and> getp (destinationUUID message) \<noteq> Val (wm_uuid self)
      then dispatch_redirect self message
      else if action message = CLOSED then dispatch_closed self message
      else if action message = LOOKUP then dispatch_lookup self message
      else if action message = CONNECT then dispatch_connect self message
      else if action message = BROADCAST then dispatch_broadcast self message
      else if action message = MESSAGE then dispatch_message self message
      else (self, [Console WARN ''TabTalk: Unknown message type.'']))"

section \<open>WindowManager.js: the public methods\<close>

text \<open>
  \<open>broadcast\<close> (lines 335 to 344). The origin of the message is read from
  \<open>this.manager\<close>, the \<open>EventManager\<close> of the manager; the hop list is seeded with
  \<open>this.uuid\<close>.
\<close>

definition broadcast :: "WindowManager \<Rightarrow> payload js \<Rightarrow> string js \<Rightarrow> effect list" where
  "broadcast this data' authentication' =
     (let created = WindowMessage 0 BROADCAST (EventManager_property (manager this) ''type'')
                      (EventManager_property (manager this) ''uuid'') Undefined Undefined
                      data' authentication';
          message = created\<lparr>hops := hops created @ [wm_uuid this]\<rparr>
      in map (\<lambda>(i, session). Send session message) (sessions this))"

text \<open>
  \<open>sessionAvailable\<close> (lines 450 to 461). The right operand of \<open>||\<close> reads the
  identifier \<open>message\<close>, which is bound neither in the function nor in the module nor
  as a global: evaluating it throws a ReferenceError. The left operand is evaluated
  first, and the right one only when the left one is false; so the body of the loop
  either returns true or throws, at the first session.
\<close>

fun sessionAvailable_loop :: "(string \<times> WindowSession) list \<Rightarrow> string js \<Rightarrow> js_error + bool" where
  "sessionAvailable_loop [] type' = Inr False"
| "sessionAvailable_loop ((i, session) # rest) type' =
     (if type session = type' then Inr True else Inl ReferenceError)"

definition sessionAvailable :: "WindowManager \<Rightarrow> string js \<Rightarrow> js_error + bool" where
  "sessionAvailable this type' = sessionAvailable_loop (sessions this) type'"

text \<open>
  \<open>lookup\<close> (lines 488 to 545). The variables \<open>sent\<close>, \<open>received\<close> and \<open>found\<close>
  and the \<open>EventManager\<close> of the response handler live in the closure of the handler;
  they are the state of the collector.
\<close>

text \<open>
  Modelled from the spec: \<open>create()\<close> attaches the handlers of an \<open>EventManager\<close> and
  \<open>destroy()\<close> detaches them (\<open>EventManager.js\<close> is missing).
\<close>

definition EventManager_create :: "EventManager \<Rightarrow> EventManager" where
  "EventManager_create em = em\<lparr>attached := True\<rparr>"

definition EventManager_destroy :: "EventManager \<Rightarrow> EventManager" where
  "EventManager_destroy em = em\<lparr>attached := False\<rparr>"

record lookup_collector =
  sent :: nat
  lookup_received :: nat
  found :: bool
  lookup_manager :: EventManager

definition lookup :: "WindowManager \<Rightarrow> string js \<Rightarrow> effect list \<times> lookup_collector option" where
  "lookup this type' =
     (let message = WindowMessage 0 LOOKUP (wm_type this) (Val (wm_uuid this)) type' Undefined
                       Undefined Undefined;
          sending = concat (map (\<lambda>(i, session).
                      [Console LOG (''TabTalk: Send lookup message to '' @ i @ ''.''),
                       Send session message]) (sessions this));
          sent' = length (sessions this)
      in if sent' > 0
         then (sending,
               Some \<lparr> sent = sent', lookup_received = 0, found = False,
                      lookup_manager = EventManager_create \<lparr>attached = False\<rparr> \<rparr>)
         else (sending @ [Console LOG ''TabTalk: No session available to run lookup.'',
                          OnFinish Null Undefined Undefined],
               None))"

text \<open>
  Reading \<open>uuid\<close> and \<open>type\<close> from the payload \<open>data.data\<close> of an answer: a
  payload without these properties yields \<open>undefined\<close>.
\<close>

fun payload_uuid :: "payload \<Rightarrow> string js" where
  "payload_uuid (LookupInfo u t) = u"
| "payload_uuid (Opaque s) = Undefined"

fun payload_type :: "payload \<Rightarrow> string js" where
  "payload_type (LookupInfo u t) = t"
| "payload_type (Opaque s) = Undefined"

text \<open>The end of the response handler: \<open>if(sent === received) ...\<close>.\<close>

definition lookup_finish :: "lookup_collector \<Rightarrow> lookup_collector \<times> effect list" where
  "lookup_finish c =
     (if sent c = lookup_received c
      then (c\<lparr>lookup_manager := EventManager_destroy (lookup_manager c)\<rparr>,
            if found c = False then [OnFinish Null Undefined Undefined] else [])
      else (c, []))"

text \<open>
  The response handler, for the message in \<open>event.data\<close> and the manager as it is when
  the event arrives. When \<open>data.data\<close> is \<open>undefined\<close> or \<open>null\<close>, evaluating the
  argument \<open>data.data.uuid\<close> throws a TypeError, after \<open>found\<close> has been set and before
  \<open>onFinish\<close> is called. Whatever the read of the table yields for the origin, a session
  or an inherited member, is passed to \<open>onFinish\<close>.
\<close>

definition lookup_handler ::
  "WindowManager \<Rightarrow> lookup_collector \<Rightarrow> message \<Rightarrow> lookup_collector \<times> effect list" where
  "lookup_handler self c data' =
     (if action data' = LOOKUP_FOUND then
        (let logged = Console LOG (''TabTalk: Received lookup FOUND message from ''
                        @ to_string (originUUID data') @ ''.'')
         in case (if found c = False then session_at self (originUUID data') else None) of
              Some session \<Rightarrow>
                (case getp (data data') of
                   Val p \<Rightarrow>
                     (let (c', finished) =
                            lookup_finish (c\<lparr>found := True, lookup_received := lookup_received c + 1\<rparr>)
                      in (c', [OnFinish (Val session) (payload_uuid p) (payload_type p), logged]
                              @ finished))
                 | _ \<Rightarrow> (c\<lparr>found := True\<rparr>, [Uncaught TypeError]))
            | None \<Rightarrow>
                (let (c', finished) = lookup_finish (c\<lparr>lookup_received := lookup_received c + 1\<rparr>)
                 in (c', logged # finished)))
      else if action data' = LOOKUP_NOT_FOUND then
        (let (c', finished) = lookup_finish (c\<lparr>lookup_received := lookup_received c + 1\<rparr>)
         in (c', Console LOG (''TabTalk: Received lookup NOT FOUND message from ''
                   @ to_string (originUUID data') @ ''.'') # finished))
      else lookup_finish c)"

text \<open>
  The collector over the \<open>message\<close> events that follow the call of \<open>lookup\<close>, each
  with the manager as it is at that time: the handler runs while it is attached.
\<close>

fun lookup_events ::
  "lookup_collector \<Rightarrow> (WindowManager \<times> message) list \<Rightarrow> lookup_collector \<times> effect list" where
  "lookup_events c [] = (c, [])"
| "lookup_events c ((self, event) # rest) =
     (if attached (lookup_manager c)
      then (let (c', handled) = lookup_handler self c event;
                (c'', later) = lookup_events c' rest
            in (c'', handled @ later))
      else lookup_events c rest)"





section \<open>Windows that talk to each other\<close>

text \<open>
  Modelled from the spec: \<open>WindowSession.prototype.send\<close> (\<open>WindowSession.js\<close> is
  missing). A session that owns a direct transport handle hands the message to the
  transport of that window; a session that owns a gateway delegates to the \<open>send\<close> of
  the gateway session; the result is the list of posted messages, each with the handle of
  the window it is posted to. The transport copies the message when it is posted. The
  first argument bounds the length of the chain of gateways that is followed.
\<close>

fun session_send ::
  "nat \<Rightarrow> (string \<times> WindowSession) list \<Rightarrow> WindowSession \<Rightarrow> message \<Rightarrow> (string \<times> message) list" where
  "session_send 0 table session message = []"
| "session_send (Suc n) table session message =
     (case window session of
        Some handle \<Rightarrow> [(handle, message)]
      | None \<Rightarrow>
          (case gateway session of
             Some (Own g) \<Rightarrow>
               (case find (\<lambda>(i, via). ident via = g) table of
                  Some (i, via) \<Rightarrow> session_send n table via message
                | None \<Rightarrow> [])
           | Some (Inherited name) \<Rightarrow> []
           | None \<Rightarrow> []))"

text \<open>The messages that the \<open>send\<close> calls among the effects of a handler post.\<close>

fun posts_of :: "(string \<times> WindowSession) list \<Rightarrow> effect list \<Rightarrow> (string \<times> message) list" where
  "posts_of table [] = []"
| "posts_of table (Send session message # rest) =
     session_send (Suc (length table)) table session message @ posts_of table rest"
| "posts_of table (e # rest) = posts_of table rest"

text \<open>
  A network: the manager that lives in each window (by the handle of the window), the
  messages posted and not yet handled (oldest first), the events handled so far (the
  window and the message), and the messages posted so far (from which window, to which
  window).
\<close>

record network =
  nodes :: "(string \<times> WindowManager) list"
  queue :: "(string \<times> message) list"
  delivered :: "(string \<times> message) list"
  posted :: "(string \<times> string \<times> message) list"

text \<open>
  One \<open>message\<close> event: the oldest posted message is handled by the manager of its
  window, and what the handler sends is posted. A message for a window that is not there
  is lost.
\<close>

definition net_step :: "string \<Rightarrow> message \<Rightarrow> network \<Rightarrow> network" where
  "net_step handle message net =
     (case map_of (nodes net) handle of
        None \<Rightarrow> net\<lparr>queue := tl (queue net)\<rparr>
      | Some self \<Rightarrow>
          (let (self', done) = dispatch self message;
               posts = posts_of (sessions self) done
           in net\<lparr> nodes := AList.update handle self' (nodes net),
                    queue := tl (queue net) @ posts,
                    delivered := delivered net @ [(handle, message)],
                    posted := posted net @ map (\<lambda>(to, m). (handle, to, m)) posts \<rparr>))"

text \<open>
  The events are handled until no message is left; the first argument bounds the
  number of events, and the result is \<open>None\<close> when messages are left after that many.
\<close>

fun net_run :: "nat \<Rightarrow> network \<Rightarrow> network option" where
  "net_run 0 net = (case queue net of [] \<Rightarrow> Some net | _ \<Rightarrow> None)"
| "net_run (Suc k) net =
     (case queue net of
        [] \<Rightarrow> Some net
      | (handle, message) # rest \<Rightarrow> net_run k (net_step handle message net))"

text \<open>The manager in window \<open>handle\<close> calls \<open>broadcast\<close>.\<close>

definition net_broadcast :: "network \<Rightarrow> string \<Rightarrow> payload js \<Rightarrow> string js \<Rightarrow> network" where
  "net_broadcast net handle data' authentication' =
     (case map_of (nodes net) handle of
        None \<Rightarrow> net
      | Some self \<Rightarrow>
          (let posts = posts_of (sessions self) (broadcast self data' authentication')
           in net\<lparr> queue := queue net @ posts,
                    posted := posted net @ map (\<lambda>(to, m). (handle, to, m)) posts \<rparr>))"

text \<open>
  Topologies. The handle of a window is named by the uuid of the manager that lives in
  it. \<open>direct n x\<close> is the entry of the session table for a ready session, with identity
  \<open>n\<close>, bound directly to the window of peer \<open>x\<close>; \<open>peer x table\<close> is the window of
  the manager with uuid \<open>x\<close> and that session table. A peer declares its uuid as its type.
\<close>

definition direct :: "nat \<Rightarrow> string \<Rightarrow> string \<times> WindowSession" where
  "direct n x =
     (x, (new_WindowSession n)\<lparr>uuid := Val x, type := Val x, status := STATUS_READY,
                                window := Some x\<rparr>)"

definition peer :: "string \<Rightarrow> (string \<times> WindowSession) list \<Rightarrow> string \<times> WindowManager" where
  "peer x table =
     (x, \<lparr> wm_type = Val x, wm_uuid = x, sessions = table, waitingSessions = [],
            wm_onBroadcastMessage = None, wm_onMessage = None,
            manager = \<lparr>attached = True\<rparr>, next_ident = length table \<rparr>)"

text \<open>A hub with a direct session to each leaf; each leaf has one session, to the hub.\<close>

definition star :: "string \<Rightarrow> string list \<Rightarrow> network" where
  "star hub leaves =
     \<lparr> nodes = peer hub (map (\<lambda>(n, x). direct n x) (enumerate 0 leaves))
               # map (\<lambda>x. peer x [direct 0 hub]) leaves,
       queue = [], delivered = [], posted = [] \<rparr>"

text \<open>Three windows, each with a direct session to the other two.\<close>

definition cycle :: "string \<Rightarrow> string \<Rightarrow> string \<Rightarrow> network" where
  "cycle a b c =
     \<lparr> nodes = [peer a [direct 0 b, direct 1 c], peer b [direct 0 a, direct 1 c],
                peer c [direct 0 a, direct 1 b]],
       queue = [], delivered = [], posted = [] \<rparr>"

section \<open>The older revision of the broadcast code\<close>

text \<open>
  The file holds a second, older revision of \<open>WindowManager.js\<close> after the first. Its
  \<open>broadcast\<close> (lines 906 to 914) does not seed the hop list, and the broadcast branch
  of its handler (lines 817 to 842, under the comment \<open>TODO FIX BROADCAST LOOP\<close>)
  neither pushes the uuid of the manager nor looks at the hops.
\<close>

definition legacy_broadcast :: "WindowManager \<Rightarrow> payload js \<Rightarrow> string js \<Rightarrow> effect list" where
  "legacy_broadcast this data' authentication' =
     (let message = WindowMessage 0 BROADCAST (EventManager_property (manager this) ''type'')
                      (EventManager_property (manager this) ''uuid'') Undefined Undefined
                      data' authentication'
      in map (\<lambda>(i, session). Send session message) (sessions this))"

fun legacy_forward_broadcast :: "message \<Rightarrow> (string \<times> WindowSession) list \<Rightarrow> effect list" where
  "legacy_forward_broadcast message [] = []"
| "legacy_forward_broadcast message ((i, session) # rest) =
     (if uuid session \<noteq> originUUID message
      then Send session message #
           invoke (onBroadcastMessage session)
             [AData (getp (data message)), AStr (getp (authentication message))]
      else [])
     @ legacy_forward_broadcast message rest"

definition legacy_dispatch_broadcast ::
  "WindowManager \<Rightarrow> message \<Rightarrow> WindowManager \<times> effect list" where
  "legacy_dispatch_broadcast self message =
     (self,
      Console LOG (''TabTalk: WindowManager broadcast message received ''
                     @ to_string (originType message) @ ''.'')
      # invoke (wm_onBroadcastMessage self)
          [AData (getp (data message)), AStr (getp (authentication message))]
      @ legacy_forward_broadcast message (sessions self))"

section \<open>What is observed of a handler\<close>

text \<open>The calls of \<open>onFinish\<close> and the calls of \<open>send\<close> among the effects, in order.\<close>

fun is_finish :: "effect \<Rightarrow> bool" where
  "is_finish (OnFinish g u t) = True"
| "is_finish e = False"

definition finishes :: "effect list \<Rightarrow> effect list" where
  "finishes done = filter is_finish done"

fun sends_of :: "effect list \<Rightarrow> (WindowSession \<times> message) list" where
  "sends_of [] = []"
| "sends_of (Send session message # rest) = (session, message) # sends_of rest"
| "sends_of (e # rest) = sends_of rest"

text \<open>
  The outcome of a lookup in the words of the specification. An event (the manager as it
  is when the message arrives, and the message) is a response when it is a LOOKUP_FOUND
  or a LOOKUP_NOT_FOUND; a response is accepted when it is a LOOKUP_FOUND whose origin
  has a session in the table. Among the first \<open>n\<close> responses (all the responses, when
  \<open>n\<close> lookups were sent), the first accepted one decides: \<open>onFinish\<close> is called with the
  session of the responder and the uuid and type that it advertises; with \<open>null\<close> when
  none is accepted.
\<close>

definition is_response :: "WindowManager \<times> message \<Rightarrow> bool" where
  "is_response ev = (action (snd ev) = LOOKUP_FOUND \<or> action (snd ev) = LOOKUP_NOT_FOUND)"

definition accepted :: "WindowManager \<times> message \<Rightarrow> bool" where
  "accepted ev =
     (action (snd ev) = LOOKUP_FOUND
      \<and> map_of (sessions (fst ev)) (to_string (originUUID (snd ev))) \<noteq> None)"

definition advertised :: "WindowManager \<times> message \<Rightarrow> effect" where
  "advertised ev =
     (case (map_of (sessions (fst ev)) (to_string (originUUID (snd ev))), getp (data (snd ev))) of
        (Some session, Val p) \<Rightarrow> OnFinish (Val (Own session)) (payload_uuid p) (payload_type p)
      | _ \<Rightarrow> OnFinish Null Undefined Undefined)"

definition spec_onFinish :: "nat \<Rightarrow> (WindowManager \<times> message) list \<Rightarrow> effect list" where
  "spec_onFinish n evs =
     (case find accepted (take n (filter is_response evs)) of
        Some ev \<Rightarrow> [advertised ev]
      | None \<Rightarrow> [OnFinish Null Undefined Undefined])"

text \<open>
  A LOOKUP_FOUND is well formed when it carries a payload (the \<open>data\<close> that
  \<open>WindowMessage.js\<close> documents for this action) and its originUUID is not the name of
  a member that the table inherits (unless a session is stored under that name).
\<close>

definition well_formed :: "WindowManager \<times> message \<Rightarrow> bool" where
  "well_formed ev =
     (action (snd ev) = LOOKUP_FOUND \<longrightarrow>
        (\<exists>p. getp (data (snd ev)) = Val p)
        \<and> (\<forall>name. session_at (fst ev) (originUUID (snd ev)) \<noteq> Some (Inherited name)))"

section \<open>Properties of the message handler\<close>

lemmas action_defs =
  READY_def CLOSED_def LOOKUP_def MESSAGE_def BROADCAST_def LOOKUP_FOUND_def
  LOOKUP_NOT_FOUND_def CONNECT_def

lemma session_at_Own:
  "map_of (sessions self) (to_string key) = Some session \<Longrightarrow> session_at self key = Some (Own session)"
  by (simp add: session_at_def)

lemma session_at_None:
  "map_of (sessions self) (to_string key) = None \<Longrightarrow> to_string key \<notin> set Object_prototype \<Longrightarrow>
   session_at self key = None"
  by (simp add: session_at_def)

lemma session_at_Inherited:
  "map_of (sessions self) (to_string key) = None \<Longrightarrow> to_string key \<in> set Object_prototype \<Longrightarrow>
   session_at self key = Some (Inherited (to_string key))"
  by (simp add: session_at_def)

text \<open>
  C1, as the code has it. A READY message is ignored, whatever its destination (the
  handler returns before it looks at the destination). For every other action and a
  destinationUUID that is set and is not the uuid of the manager: when the session table
  has a session under destinationUUID, the uuid of the manager is appended to the hops
  and the message is handed to \<open>send\<close> of that session; when it has none, and
  destinationUUID is not the name of a member that the table inherits, the message is
  logged and dropped. In each case the manager is unchanged and no action handler runs
  (nothing else is among the effects).
\<close>

theorem dispatch_redirects:
  "(action m = READY \<longrightarrow> dispatch self m = (self, []))
   \<and> (action m \<noteq> READY \<longrightarrow> getp (destinationUUID m) \<noteq> Undefined \<longrightarrow>
        getp (destinationUUID m) \<noteq> Val (wm_uuid self) \<longrightarrow>
          (\<forall>session. map_of (sessions self) (to_string (getp (destinationUUID m))) = Some session \<longrightarrow>
             dispatch self m =
               (self, [Console WARN (''TabTalk: Destination UUID diferent from self, destination is ''
                         @ to_string (getp (destinationUUID m))),
                       Send session (m\<lparr>hops := hops m @ [wm_uuid self]\<rparr>),
                       Console LOG ''TabTalk: Redirected message to destination.'']))
        \<and> (map_of (sessions self) (to_string (getp (destinationUUID m))) = None \<longrightarrow>
             to_string (getp (destinationUUID m)) \<notin> set Object_prototype \<longrightarrow>
             dispatch self m =
               (self, [Console WARN (''TabTalk: Destination UUID diferent from self, destination is ''
                         @ to_string (getp (destinationUUID m))),
                       Console WARN ''TabTalk: Unknown destination, cannot redirect message.''])))"
  by (simp add: dispatch_def dispatch_redirect_def Let_def session_at_Own session_at_None)

theorem dispatch_redirects_witness:
  "dispatch (snd (peer ''R'' [direct 0 ''G'']))
        (WindowMessage 0 READY (Val ''X'') (Val ''X'') Undefined Undefined Undefined Undefined)
       = (snd (peer ''R'' [direct 0 ''G'']), [])
   \<and> dispatch (snd (peer ''R'' [direct 0 ''G'']))
        (WindowMessage 0 MESSAGE (Val ''X'') (Val ''X'') (Val ''G'') (Val ''G'')
          (Val (Opaque ''hi'')) Undefined)
       = (snd (peer ''R'' [direct 0 ''G'']),
          [Console WARN ''TabTalk: Destination UUID diferent from self, destination is G'',
           Send (snd (direct 0 ''G''))
             ((WindowMessage 0 MESSAGE (Val ''X'') (Val ''X'') (Val ''G'') (Val ''G'')
                (Val (Opaque ''hi'')) Undefined)\<lparr>hops := [''R'']\<rparr>),
           Console LOG ''TabTalk: Redirected message to destination.''])
   \<and> dispatch (snd (peer ''R'' [direct 0 ''G'']))
        (WindowMessage 0 MESSAGE (Val ''X'') (Val ''X'') (Val ''K'') (Val ''K'')
          (Val (Opaque ''hi'')) Undefined)
       = (snd (peer ''R'' [direct 0 ''G'']),
          [Console WARN ''TabTalk: Destination UUID diferent from self, destination is K'',
           Console WARN ''TabTalk: Unknown destination, cannot redirect message.''])"
  using dispatch_redirects [of "WindowMessage 0 READY (Val ''X'') (Val ''X'') Undefined Undefined
          Undefined Undefined" "snd (peer ''R'' [direct 0 ''G''])"]
    dispatch_redirects [of "WindowMessage 0 MESSAGE (Val ''X'') (Val ''X'') (Val ''G'') (Val ''G'')
          (Val (Opaque ''hi'')) Undefined" "snd (peer ''R'' [direct 0 ''G''])"]
    dispatch_redirects [of "WindowMessage 0 MESSAGE (Val ''X'') (Val ''X'') (Val ''K'') (Val ''K'')
          (Val (Opaque ''hi'')) Undefined" "snd (peer ''R'' [direct 0 ''G''])"]
  by (simp add: WindowMessage_def getp_def peer_def direct_def action_defs Object_prototype_def)

text \<open>
  C1 as stated fails for READY: the manager \<open>R\<close> has a session to \<open>G\<close> and receives a
  READY message whose destinationUUID is \<open>G\<close>; nothing is forwarded. It also fails for a
  destination that names an inherited member of the table: a MESSAGE for \<open>toString\<close>,
  under which \<open>R\<close> has no session, is not logged and dropped: the handler throws.
\<close>

theorem dispatch_READY_not_redirected:
  "getp (destinationUUID (WindowMessage 0 READY (Val ''X'') (Val ''X'') (Val ''G'') (Val ''G'')
        Undefined Undefined)) = Val ''G''
   \<and> wm_uuid (snd (peer ''R'' [direct 0 ''G''])) = ''R''
   \<and> map_of (sessions (snd (peer ''R'' [direct 0 ''G'']))) ''G'' = Some (snd (direct 0 ''G''))
   \<and> dispatch (snd (peer ''R'' [direct 0 ''G'']))
        (WindowMessage 0 READY (Val ''X'') (Val ''X'') (Val ''G'') (Val ''G'') Undefined Undefined)
       = (snd (peer ''R'' [direct 0 ''G'']), [])
   \<and> map_of (sessions (snd (peer ''R'' [direct 0 ''G'']))) ''toString'' = None
   \<and> dispatch (snd (peer ''R'' [direct 0 ''G'']))
        (WindowMessage 0 MESSAGE (Val ''X'') (Val ''X'') Undefined (Val ''toString'')
          (Val (Opaque ''hi'')) Undefined)
       = (snd (peer ''R'' [direct 0 ''G'']),
          [Console WARN ''TabTalk: Destination UUID diferent from self, destination is toString'',
           Uncaught TypeError])"
  by (simp add: dispatch_def dispatch_redirect_def WindowMessage_def getp_def peer_def direct_def
      session_at_def action_defs Object_prototype_def)

text \<open>
  The part of the redirection that the statement above leaves out: a destination that
  is no key of the table but the name of an inherited member makes the handler throw.
\<close>

lemma dispatch_redirect_inherited:
  assumes "action m \<noteq> READY" and "getp (destinationUUID m) \<noteq> Undefined"
    and "getp (destinationUUID m) \<noteq> Val (wm_uuid self)"
    and "map_of (sessions self) (to_string (getp (destinationUUID m))) = None"
    and "to_string (getp (destinationUUID m)) \<in> set Object_prototype"
  shows "dispatch self m =
     (self, [Console WARN (''TabTalk: Destination UUID diferent from self, destination is ''
                         @ to_string (getp (destinationUUID m))),
             Uncaught TypeError])"
  using assms by (simp add: dispatch_def dispatch_redirect_def Let_def session_at_Inherited)

text \<open>
  C5, as the code has it. For a MESSAGE that is not redirected: the global
  \<open>onMessage\<close> callback of the manager, when set, is called first, whether or not the
  table has a session under originUUID. When it has one, the message is appended to the
  \<open>received\<close> queue of that session and then the \<open>onMessage\<close> callback of the session,
  when set, is called; when it has none, and originUUID is not the name of a member that
  the table inherits, the message is logged and dropped, the manager is unchanged and no
  callback of a session is called.
\<close>

theorem dispatch_MESSAGE:
  assumes "action m = MESSAGE"
    and "getp (destinationUUID m) = Undefined \<or> getp (destinationUUID m) = Val (wm_uuid self)"
  shows "(\<forall>session. map_of (sessions self) (to_string (originUUID m)) = Some session \<longrightarrow>
            sessions (fst (dispatch self m))
              = AList.update (to_string (originUUID m))
                  (session\<lparr>received := received session @ [m]\<rparr>) (sessions self)
          \<and> snd (dispatch self m)
              = Console LOG (''TabTalk: WindowManager message received ''
                             @ to_string (originType m) @ ''.'')
                # invoke (wm_onMessage self)
                    [AStr (originType m), AData (getp (data m)), AStr (getp (authentication m))]
                @ invoke (onMessage session) [AData (getp (data m)), AStr (getp (authentication m))])
       \<and> (map_of (sessions self) (to_string (originUUID m)) = None \<longrightarrow>
          to_string (originUUID m) \<notin> set Object_prototype \<longrightarrow>
            dispatch self m
              = (self,
                 Console LOG (''TabTalk: WindowManager message received ''
                              @ to_string (originType m) @ ''.'')
                 # invoke (wm_onMessage self)
                     [AStr (originType m), AData (getp (data m)), AStr (getp (authentication m))]
                 @ [Console WARN ''TabTalk: Unknown origin session.'']))"
proof -
  have d: "dispatch self m = dispatch_message self m"
    using assms by (auto simp add: dispatch_def action_defs)
  show ?thesis
    unfolding d by (simp add: dispatch_message_def Let_def session_at_Own session_at_None)
qed

theorem dispatch_MESSAGE_witness:
  "action (WindowMessage 0 MESSAGE (Val ''T'') (Val ''X'') Undefined Undefined (Val (Opaque ''hi''))
             Undefined) = MESSAGE
   \<and> getp (destinationUUID (WindowMessage 0 MESSAGE (Val ''T'') (Val ''X'') Undefined Undefined
             (Val (Opaque ''hi'')) Undefined)) = Undefined
   \<and> map_of (sessions ((snd (peer ''R'' [(''X'', (snd (direct 0 ''X''))\<lparr>onMessage := Some 3\<rparr>)]))
                   \<lparr>wm_onMessage := Some 7\<rparr>)) ''X''
       = Some ((snd (direct 0 ''X''))\<lparr>onMessage := Some 3\<rparr>)
   \<and> sessions (fst (dispatch
         ((snd (peer ''R'' [(''X'', (snd (direct 0 ''X''))\<lparr>onMessage := Some 3\<rparr>)]))
            \<lparr>wm_onMessage := Some 7\<rparr>)
         (WindowMessage 0 MESSAGE (Val ''T'') (Val ''X'') Undefined Undefined (Val (Opaque ''hi''))
            Undefined)))
       = [(''X'', (snd (direct 0 ''X''))
                   \<lparr>onMessage := Some 3,
                    received := [WindowMessage 0 MESSAGE (Val ''T'') (Val ''X'') Undefined Undefined
                                   (Val (Opaque ''hi'')) Undefined]\<rparr>)]
   \<and> snd (dispatch
         ((snd (peer ''R'' [(''X'', (snd (direct 0 ''X''))\<lparr>onMessage := Some 3\<rparr>)]))
            \<lparr>wm_onMessage := Some 7\<rparr>)
         (WindowMessage 0 MESSAGE (Val ''T'') (Val ''X'') Undefined Undefined (Val (Opaque ''hi''))
            Undefined))
       = [Console LOG ''TabTalk: WindowManager message received T.'',
          Call 7 [AStr (Val ''T''), AData (Val (Opaque ''hi'')), AStr Undefined],
          Call 3 [AData (Val (Opaque ''hi'')), AStr Undefined]]"
  using dispatch_MESSAGE [of "WindowMessage 0 MESSAGE (Val ''T'') (Val ''X'') Undefined Undefined
            (Val (Opaque ''hi'')) Undefined"
      "(snd (peer ''R'' [(''X'', (snd (direct 0 ''X''))\<lparr>onMessage := Some 3\<rparr>)]))
            \<lparr>wm_onMessage := Some 7\<rparr>"]
  by (simp add: WindowMessage_def getp_def peer_def direct_def invoke_def new_WindowSession_def)

text \<open>
  C5 as stated fails: the manager \<open>R\<close> has a global \<open>onMessage\<close> callback and no
  session; a MESSAGE from the unknown origin \<open>X\<close> is logged and dropped, but the global
  callback is called for it.
\<close>

theorem dispatch_MESSAGE_unknown_origin_calls_back:
  "map_of (sessions ((snd (peer ''R'' []))\<lparr>wm_onMessage := Some 7\<rparr>))
       (to_string (originUUID (WindowMessage 0 MESSAGE (Val ''T'') (Val ''X'') Undefined Undefined
          (Val (Opaque ''hi'')) Undefined))) = None
   \<and> snd (dispatch ((snd (peer ''R'' []))\<lparr>wm_onMessage := Some 7\<rparr>)
         (WindowMessage 0 MESSAGE (Val ''T'') (Val ''X'') Undefined Undefined (Val (Opaque ''hi''))
            Undefined))
       = [Console LOG ''TabTalk: WindowManager message received T.'',
          Call 7 [AStr (Val ''T''), AData (Val (Opaque ''hi'')), AStr Undefined],
          Console WARN ''TabTalk: Unknown origin session.'']"
  by (simp add: dispatch_def dispatch_message_def WindowMessage_def getp_def peer_def
      session_at_def invoke_def action_defs Object_prototype_def)

text \<open>
  The part of the MESSAGE branch that the statement above leaves out: an origin that is
  no key of the table but the name of an inherited member makes the handler throw, after
  the global callback.
\<close>

lemma dispatch_MESSAGE_inherited:
  assumes "action m = MESSAGE"
    and "getp (destinationUUID m) = Undefined \<or> getp (destinationUUID m) = Val (wm_uuid self)"
    and "map_of (sessions self) (to_string (originUUID m)) = None"
    and "to_string (originUUID m) \<in> set Object_prototype"
  shows "dispatch self m
     = (self,
        Console LOG (''TabTalk: WindowManager message received '' @ to_string (originType m) @ ''.'')
        # invoke (wm_onMessage self)
            [AStr (originType m), AData (getp (data m)), AStr (getp (authentication m))]
        @ [Uncaught TypeError])"
proof -
  have d: "dispatch self m = dispatch_message self m"
    using assms by (auto simp add: dispatch_def action_defs)
  show ?thesis
    unfolding d using assms(3,4) by (simp add: dispatch_message_def Let_def session_at_Inherited)
qed

text \<open>
  C7. The manager \<open>R\<close> has one session, to \<open>G\<close>. A CLOSED message whose originUUID is
  \<open>constructor\<close> keys no session of the table; the table is unchanged, but the handler
  does not log and return: it throws a TypeError.
\<close>

theorem dispatch_CLOSED_inherited_origin_throws:
  "map_of (sessions (snd (peer ''R'' [direct 0 ''G''])))
       (to_string (originUUID (WindowMessage 0 CLOSED (Val ''T'') (Val ''constructor'') Undefined
          Undefined Undefined Undefined))) = None
   \<and> dispatch (snd (peer ''R'' [direct 0 ''G'']))
        (WindowMessage 0 CLOSED (Val ''T'') (Val ''constructor'') Undefined Undefined Undefined
           Undefined)
       = (snd (peer ''R'' [direct 0 ''G'']), [Uncaught TypeError])"
  by (simp add: dispatch_def dispatch_closed_def WindowMessage_def getp_def peer_def direct_def
      session_at_def action_defs Object_prototype_def)

text \<open>
  What the CLOSED branch does otherwise, for a message that is not redirected: an origin
  that is neither a key of the table nor the name of an inherited member leaves the
  manager unchanged, with a warning and no exception; an origin that is a key of the
  table has its entry deleted.
\<close>

lemma dispatch_CLOSED_own_keys:
  assumes "action m = CLOSED"
    and "getp (destinationUUID m) = Undefined \<or> getp (destinationUUID m) = Val (wm_uuid self)"
  shows "(map_of (sessions self) (to_string (originUUID m)) = None \<longrightarrow>
          to_string (originUUID m) \<notin> set Object_prototype \<longrightarrow>
            dispatch self m = (self, [Console WARN ''TabTalk: Unknown closed origin session.'']))
       \<and> (\<forall>session. map_of (sessions self) (to_string (originUUID m)) = Some session \<longrightarrow>
            sessions (fst (dispatch self m))
              = AList.delete (to_string (originUUID m)) (sessions self)
            \<and> map_of (sessions (fst (dispatch self m))) (to_string (originUUID m)) = None
            \<and> snd (dispatch self m) = [SetStatus session STATUS_CLOSED])"
proof -
  have d: "dispatch self m = dispatch_closed self m"
    using assms by (auto simp add: dispatch_def action_defs)
  have "map_of (AList.delete k al) k = None" for k and al :: "(string \<times> WindowSession) list"
    by (simp add: AList.delete_eq map_of_eq_None_iff image_iff)
  then show ?thesis
    unfolding d by (simp add: dispatch_closed_def session_at_Own session_at_None)
qed

section \<open>Properties of lookup\<close>

lemma finishes_simps [simp]:
  "finishes [] = []"
  "finishes (OnFinish g u t # es) = OnFinish g u t # finishes es"
  "finishes (Console l x # es) = finishes es"
  "finishes (xs @ ys) = finishes xs @ finishes ys"
  by (simp_all add: finishes_def)

lemma lookup_events_Cons:
  "lookup_events c ((self, m) # rest) =
     (if attached (lookup_manager c)
      then (fst (lookup_events (fst (lookup_handler self c m)) rest),
            snd (lookup_handler self c m) @ snd (lookup_events (fst (lookup_handler self c m)) rest))
      else lookup_events c rest)"
  by (simp split: prod.splits)

lemma lookup_events_detached:
  "\<not> attached (lookup_manager c) \<Longrightarrow> lookup_events c evs = (c, [])"
  by (induction evs) auto

lemma lookup_finish_found:
  "found c \<Longrightarrow> found (fst (lookup_finish c)) \<and> finishes (snd (lookup_finish c)) = []"
  by (simp add: lookup_finish_def)

lemma lookup_handler_found:
  "found c \<Longrightarrow> found (fst (lookup_handler self c m)) \<and> finishes (snd (lookup_handler self c m)) = []"
  by (simp add: lookup_handler_def lookup_finish_def Let_def split: prod.splits)

lemma lookup_events_found:
  "found c \<Longrightarrow> finishes (snd (lookup_events c evs)) = []"
proof (induction evs arbitrary: c)
  case Nil
  then show ?case by simp
next
  case (Cons ev evs)
  obtain self m where ev: "ev = (self, m)" by (cases ev)
  obtain c' h where h: "lookup_handler self c m = (c', h)" by (cases "lookup_handler self c m")
  with lookup_handler_found [OF Cons.prems, of self m] have "found c'" "finishes h = []" by simp_all
  with Cons.IH [of c'] Cons.IH [of c] Cons.prems h ev show ?case
    by (simp add: lookup_events_Cons del: lookup_events.simps)
qed

lemma spec_onFinish_skip:
  "\<not> is_response ev \<Longrightarrow> spec_onFinish n (ev # evs) = spec_onFinish n evs"
  by (simp add: spec_onFinish_def)

lemma spec_onFinish_rejected:
  "is_response ev \<Longrightarrow> \<not> accepted ev \<Longrightarrow> spec_onFinish (Suc n) (ev # evs) = spec_onFinish n evs"
  by (simp add: spec_onFinish_def)

lemma spec_onFinish_accepted:
  "is_response ev \<Longrightarrow> accepted ev \<Longrightarrow> spec_onFinish (Suc n) (ev # evs) = [advertised ev]"
  by (simp add: spec_onFinish_def)

lemma spec_onFinish_0: "spec_onFinish 0 evs = [OnFinish Null Undefined Undefined]"
  by (simp add: spec_onFinish_def)

lemma lookup_events_collects:
  assumes "found c = False" and "attached (lookup_manager c)" and "lookup_received c < sent c"
    and "list_all well_formed evs"
    and "sent c - lookup_received c \<le> length (filter is_response evs)"
  shows "finishes (snd (lookup_events c evs)) = spec_onFinish (sent c - lookup_received c) evs"
  using assms
proof (induction evs arbitrary: c)
  case Nil
  then show ?case by simp
next
  case (Cons ev evs)
  obtain self m where ev: "ev = (self, m)" by (cases ev)
  obtain k where k: "sent c - lookup_received c = Suc k"
    using Cons.prems(3) by (cases "sent c - lookup_received c") auto
  show ?case
  proof (cases "is_response ev")
    case False
    then have "lookup_handler self c m = (c, [])"
      using Cons.prems(3) ev by (simp add: lookup_handler_def lookup_finish_def is_response_def)
    with Cons False ev show ?thesis
      by (simp add: spec_onFinish_skip lookup_events_Cons del: lookup_events.simps)
  next
    case True
    show ?thesis
    proof (cases "accepted ev")
      case acc: True
      then obtain session p where s0: "map_of (sessions self) (to_string (originUUID m)) = Some session"
        and p: "getp (data m) = Val p" and a: "action m = LOOKUP_FOUND"
        using Cons.prems(4) ev by (auto simp add: accepted_def well_formed_def)
      have s: "session_at self (originUUID m) = Some (Own session)"
        using s0 by (rule session_at_Own)
      define c1 where "c1 = c\<lparr>found := True, lookup_received := lookup_received c + 1\<rparr>"
      have h: "lookup_handler self c m =
          (fst (lookup_finish c1),
           [OnFinish (Val (Own session)) (payload_uuid p) (payload_type p),
            Console LOG (''TabTalk: Received lookup FOUND message from ''
                        @ to_string (originUUID m) @ ''.'')] @ snd (lookup_finish c1))"
        using s p a Cons.prems(1)
        by (simp add: lookup_handler_def Let_def c1_def split: prod.splits)
      have f1: "found (fst (lookup_finish c1))" "finishes (snd (lookup_finish c1)) = []"
        using lookup_finish_found [of c1] by (simp_all add: c1_def)
      have "finishes (snd (lookup_events c (ev # evs)))
          = [OnFinish (Val (Own session)) (payload_uuid p) (payload_type p)]"
        using h f1 lookup_events_found [OF f1(1), of evs] Cons.prems(2) ev
        by (simp add: lookup_events_Cons del: lookup_events.simps)
      moreover have "advertised ev = OnFinish (Val (Own session)) (payload_uuid p) (payload_type p)"
        using s0 p ev by (simp add: advertised_def)
      ultimately show ?thesis
        using True acc k by (simp add: spec_onFinish_accepted)
    next
      case rej: False
      define c1 where "c1 = c\<lparr>lookup_received := lookup_received c + 1\<rparr>"
      have none: "session_at self (originUUID m) = None" if "action m = LOOKUP_FOUND"
        using that rej ev Cons.prems(4)
        by (auto simp add: accepted_def well_formed_def session_at_def split: if_splits)
      have h: "\<exists>l. lookup_handler self c m = (fst (lookup_finish c1), Console LOG l # snd (lookup_finish c1))"
        using True ev Cons.prems(1) none
        by (auto simp add: lookup_handler_def Let_def c1_def is_response_def action_defs
            split: prod.splits)
      show ?thesis
      proof (cases k)
        case 0
        then have "sent c1 = lookup_received c1" using k by (simp add: c1_def)
        then have "lookup_finish c1 = (c1\<lparr>lookup_manager := EventManager_destroy (lookup_manager c1)\<rparr>,
                     [OnFinish Null Undefined Undefined])"
          using Cons.prems(1) by (simp add: lookup_finish_def c1_def)
        with h Cons.prems(2) ev
        have "finishes (snd (lookup_events c (ev # evs))) = [OnFinish Null Undefined Undefined]"
          by (auto simp add: lookup_events_detached EventManager_destroy_def lookup_events_Cons
              simp del: lookup_events.simps)
        then show ?thesis
          using True rej k 0 by (simp add: spec_onFinish_rejected spec_onFinish_0)
      next
        case (Suc j)
        then have lt: "lookup_received c1 < sent c1" and d: "sent c1 - lookup_received c1 = k"
          using k by (simp_all add: c1_def)
        then have lf: "lookup_finish c1 = (c1, [])"
          by (simp add: lookup_finish_def)
        have "finishes (snd (lookup_events c1 evs)) = spec_onFinish (sent c1 - lookup_received c1) evs"
          using Cons.prems True k d lt
          by (intro Cons.IH) (simp_all add: c1_def)
        with h lf Cons.prems(2) ev d show ?thesis
          using True rej k
          by (auto simp add: spec_onFinish_rejected lookup_events_Cons simp del: lookup_events.simps)
      qed
    qed
  qed
qed

lemma sends_of_lookup:
  "sends_of (concat (map (\<lambda>(i, session). [Console LOG (f i), Send session m]) table))
     = map (\<lambda>(i, session). (session, m)) table"
  by (induction table) auto

lemma finishes_lookup:
  "finishes (concat (map (\<lambda>(i, session). [Console LOG (f i), Send session m]) table)) = []"
  by (induction table) (auto simp add: finishes_def)

text \<open>
  C3, as the code has it. \<open>lookup\<close> on an empty session table calls \<open>onFinish(null)\<close> before it returns
  and sends nothing. On a table that is not empty it sends one LOOKUP message to each
  session, does not call \<open>onFinish\<close> before it returns, and installs the collector;
  once as many responses as lookups were sent have arrived, each LOOKUP_FOUND among them
  well formed (it carries its payload, and its originUUID is not the name of a member
  that the table inherits), \<open>onFinish\<close> has been called exactly once: with the session,
  uuid and type of the first accepted LOOKUP_FOUND, or with \<open>null\<close> when none was
  accepted.
\<close>

theorem lookup_onFinish_once:
  "(sessions this = [] \<longrightarrow>
      lookup this t = ([Console LOG ''TabTalk: No session available to run lookup.'',
                        OnFinish Null Undefined Undefined], None))
   \<and> (sessions this \<noteq> [] \<longrightarrow>
        (\<exists>c. snd (lookup this t) = Some c
           \<and> sends_of (fst (lookup this t))
               = map (\<lambda>(i, session).
                        (session, WindowMessage 0 LOOKUP (wm_type this) (Val (wm_uuid this)) t
                                    Undefined Undefined Undefined)) (sessions this)
           \<and> finishes (fst (lookup this t)) = []
           \<and> (\<forall>evs. list_all well_formed evs \<longrightarrow>
                  length (sessions this) \<le> length (filter is_response evs) \<longrightarrow>
                  finishes (snd (lookup_events c evs)) = spec_onFinish (length (sessions this)) evs
                  \<and> length (finishes (snd (lookup_events c evs))) = 1)))"
proof (intro conjI impI)
  assume "sessions this = []"
  then show "lookup this t = ([Console LOG ''TabTalk: No session available to run lookup.'',
                        OnFinish Null Undefined Undefined], None)"
    by (simp add: lookup_def)
next
  assume ne: "sessions this \<noteq> []"
  define c where "c = \<lparr> sent = length (sessions this), lookup_received = 0, found = False,
                      lookup_manager = EventManager_create \<lparr>attached = False\<rparr> \<rparr>"
  have l: "lookup this t =
      (concat (map (\<lambda>(i, session).
                      [Console LOG (''TabTalk: Send lookup message to '' @ i @ ''.''),
                       Send session (WindowMessage 0 LOOKUP (wm_type this) (Val (wm_uuid this)) t
                                    Undefined Undefined Undefined)]) (sessions this)), Some c)"
    using ne by (simp add: lookup_def Let_def c_def)
  have "finishes (snd (lookup_events c evs)) = spec_onFinish (length (sessions this)) evs
        \<and> length (finishes (snd (lookup_events c evs))) = 1"
    if "list_all well_formed evs" and "length (sessions this) \<le> length (filter is_response evs)"
    for evs
  proof -
    have "finishes (snd (lookup_events c evs)) = spec_onFinish (sent c - lookup_received c) evs"
      using that ne by (intro lookup_events_collects) (simp_all add: c_def EventManager_create_def)
    then have "finishes (snd (lookup_events c evs)) = spec_onFinish (length (sessions this)) evs"
      by (simp add: c_def)
    then show ?thesis
      by (simp add: spec_onFinish_def split: option.splits)
  qed
  then have all: "\<forall>evs. list_all well_formed evs \<longrightarrow>
                  length (sessions this) \<le> length (filter is_response evs) \<longrightarrow>
                  finishes (snd (lookup_events c evs)) = spec_onFinish (length (sessions this)) evs
                  \<and> length (finishes (snd (lookup_events c evs))) = 1"
    by blast
  have "snd (lookup this t) = Some c" using l by simp
  moreover have "sends_of (fst (lookup this t))
               = map (\<lambda>(i, session).
                        (session, WindowMessage 0 LOOKUP (wm_type this) (Val (wm_uuid this)) t
                                    Undefined Undefined Undefined)) (sessions this)"
    unfolding l by (simp add: sends_of_lookup)
  moreover have "finishes (fst (lookup this t)) = []"
    unfolding l by (simp add: finishes_lookup)
  ultimately show "\<exists>c. snd (lookup this t) = Some c
           \<and> sends_of (fst (lookup this t))
               = map (\<lambda>(i, session).
                        (session, WindowMessage 0 LOOKUP (wm_type this) (Val (wm_uuid this)) t
                                    Undefined Undefined Undefined)) (sessions this)
           \<and> finishes (fst (lookup this t)) = []
           \<and> (\<forall>evs. list_all well_formed evs \<longrightarrow>
                  length (sessions this) \<le> length (filter is_response evs) \<longrightarrow>
                  finishes (snd (lookup_events c evs)) = spec_onFinish (length (sessions this)) evs
                  \<and> length (finishes (snd (lookup_events c evs))) = 1)"
    using all by blast
qed

theorem lookup_onFinish_once_witness:
  "lookup (snd (peer ''R'' [])) (Val ''T'')
     = ([Console LOG ''TabTalk: No session available to run lookup.'',
         OnFinish Null Undefined Undefined], None)
   \<and> snd (lookup (snd (peer ''R'' [direct 0 ''G'', direct 1 ''K''])) (Val ''T''))
       = Some \<lparr> sent = 2, lookup_received = 0, found = False,
                lookup_manager = \<lparr>attached = True\<rparr> \<rparr>
   \<and> finishes (snd (lookup_events
         \<lparr> sent = 2, lookup_received = 0, found = False, lookup_manager = \<lparr>attached = True\<rparr> \<rparr>
         [(snd (peer ''R'' [direct 0 ''G'', direct 1 ''K'']),
           WindowMessage 0 LOOKUP_FOUND (Val ''K'') (Val ''K'') Undefined Undefined
             (Val (LookupInfo (Val ''Z'') (Val ''T''))) Undefined),
          (snd (peer ''R'' [direct 0 ''G'', direct 1 ''K'']),
           WindowMessage 0 LOOKUP_NOT_FOUND (Val ''G'') (Val ''G'') Undefined Undefined
             Undefined Undefined)]))
       = [OnFinish (Val (Own (snd (direct 1 ''K'')))) (Val ''Z'') (Val ''T'')]"
proof -
  let ?R = "snd (peer ''R'' [direct 0 ''G'', direct 1 ''K''])"
  let ?evs = "[(?R, WindowMessage 0 LOOKUP_FOUND (Val ''K'') (Val ''K'') Undefined Undefined
             (Val (LookupInfo (Val ''Z'') (Val ''T''))) Undefined),
          (?R, WindowMessage 0 LOOKUP_NOT_FOUND (Val ''G'') (Val ''G'') Undefined Undefined
             Undefined Undefined)]"
  have c: "snd (lookup ?R (Val ''T''))
       = Some \<lparr> sent = 2, lookup_received = 0, found = False,
                lookup_manager = \<lparr>attached = True\<rparr> \<rparr>"
    by (simp add: lookup_def peer_def Let_def EventManager_create_def)
  have ne: "sessions ?R \<noteq> []" by (simp add: peer_def)
  have wf: "list_all well_formed ?evs"
    by (simp add: well_formed_def WindowMessage_def getp_def action_defs session_at_def
        peer_def direct_def)
  have n: "length (sessions ?R) \<le> length (filter is_response ?evs)"
    by (simp add: is_response_def WindowMessage_def peer_def)
  have s: "spec_onFinish (length (sessions ?R)) ?evs
      = [OnFinish (Val (Own (snd (direct 1 ''K'')))) (Val ''Z'') (Val ''T'')]"
    by (simp add: spec_onFinish_def is_response_def accepted_def advertised_def WindowMessage_def
        peer_def direct_def getp_def numeral_2_eq_2 action_defs)
  from lookup_onFinish_once [of "snd (peer ''R'' [])" "Val ''T''"]
  have e: "lookup (snd (peer ''R'' [])) (Val ''T'')
     = ([Console LOG ''TabTalk: No session available to run lookup.'',
         OnFinish Null Undefined Undefined], None)"
    by (simp add: peer_def)
  from lookup_onFinish_once [of ?R "Val ''T''"] ne
  obtain c' where c': "snd (lookup ?R (Val ''T'')) = Some c'"
    and all: "\<forall>evs. list_all well_formed evs \<longrightarrow>
                  length (sessions ?R) \<le> length (filter is_response evs) \<longrightarrow>
                  finishes (snd (lookup_events c' evs)) = spec_onFinish (length (sessions ?R)) evs
                  \<and> length (finishes (snd (lookup_events c' evs))) = 1"
    by blast
  from all wf n
  have "finishes (snd (lookup_events c' ?evs)) = spec_onFinish (length (sessions ?R)) ?evs"
    by blast
  moreover from c c' have "c' = \<lparr> sent = 2, lookup_received = 0, found = False,
                lookup_manager = \<lparr>attached = True\<rparr> \<rparr>"
    by simp
  ultimately have "finishes (snd (lookup_events
         \<lparr> sent = 2, lookup_received = 0, found = False, lookup_manager = \<lparr>attached = True\<rparr> \<rparr>
         ?evs)) = spec_onFinish (length (sessions ?R)) ?evs"
    by simp
  with s c e show ?thesis by simp
qed

text \<open>
  C3 as stated fails. The manager \<open>R\<close> has one session, to \<open>G\<close>, so one lookup is
  sent. When \<open>G\<close> answers with a LOOKUP_FOUND without a payload, the handler throws a
  TypeError after it has set \<open>found\<close>; a LOOKUP_NOT_FOUND that follows completes the
  count, and \<open>onFinish\<close> has not been called at all. When the answer is a LOOKUP_FOUND
  whose originUUID is \<open>constructor\<close>, under which \<open>R\<close> has no session, \<open>onFinish\<close> is
  called with the inherited member, not with a session and not with \<open>null\<close>.
\<close>

theorem lookup_onFinish_not_called:
  "snd (lookup (snd (peer ''R'' [direct 0 ''G''])) (Val ''T''))
     = Some \<lparr> sent = 1, lookup_received = 0, found = False, lookup_manager = \<lparr>attached = True\<rparr> \<rparr>
   \<and> lookup_events
         \<lparr> sent = 1, lookup_received = 0, found = False, lookup_manager = \<lparr>attached = True\<rparr> \<rparr>
         [(snd (peer ''R'' [direct 0 ''G'']),
           WindowMessage 0 LOOKUP_FOUND (Val ''G'') (Val ''G'') Undefined Undefined Undefined
             Undefined),
          (snd (peer ''R'' [direct 0 ''G'']),
           WindowMessage 0 LOOKUP_NOT_FOUND (Val ''G'') (Val ''G'') Undefined Undefined Undefined
             Undefined)]
       = (\<lparr> sent = 1, lookup_received = 1, found = True, lookup_manager = \<lparr>attached = False\<rparr> \<rparr>,
          [Uncaught TypeError,
           Console LOG ''TabTalk: Received lookup NOT FOUND message from G.''])
   \<and> map_of (sessions (snd (peer ''R'' [direct 0 ''G'']))) ''constructor'' = None
   \<and> finishes (snd (lookup_events
         \<lparr> sent = 1, lookup_received = 0, found = False, lookup_manager = \<lparr>attached = True\<rparr> \<rparr>
         [(snd (peer ''R'' [direct 0 ''G'']),
           WindowMessage 0 LOOKUP_FOUND (Val ''X'') (Val ''constructor'') Undefined Undefined
             (Val (LookupInfo (Val ''Z'') (Val ''T''))) Undefined)]))
       = [OnFinish (Val (Inherited ''constructor'')) (Val ''Z'') (Val ''T'')]"
  by (simp add: lookup_def lookup_handler_def lookup_finish_def WindowMessage_def peer_def
      direct_def session_at_def getp_def Let_def EventManager_create_def EventManager_destroy_def
      action_defs Object_prototype_def)

section \<open>Properties of broadcasting\<close>

lemma indexOf_from_absent: "0 \<le> i \<Longrightarrow> (indexOf_from xs v i = - 1) = (v \<notin> set xs)"
  by (induction xs v i rule: indexOf_from.induct) auto

lemma indexOf_absent: "(indexOf xs v = - 1) = (v \<notin> Val ` set xs)"
  by (cases v) (auto simp add: indexOf_def indexOf_from_absent)

lemma sends_of_invoke [simp]: "sends_of (invoke slot args @ es) = sends_of es"
  by (simp add: invoke_def split: option.splits)

lemma sends_of_forward_broadcast:
  "sends_of (forward_broadcast m table)
     = map (\<lambda>(i, session). (session, m))
         (filter (\<lambda>(i, session). uuid session \<noteq> originUUID m \<and> uuid session \<notin> Val ` set (hops m))
            table)"
  by (induction table) (auto simp add: indexOf_absent)

lemma dispatch_is_broadcast:
  "action m = BROADCAST \<Longrightarrow>
   getp (destinationUUID m) = Undefined \<or> getp (destinationUUID m) = Val (wm_uuid self) \<Longrightarrow>
   dispatch self m = dispatch_broadcast self m"
  by (auto simp add: dispatch_def action_defs)

lemma broadcast_forwarding:
  assumes "action m = BROADCAST"
    and "getp (destinationUUID m) = Undefined \<or> getp (destinationUUID m) = Val (wm_uuid self)"
  shows "sends_of (snd (dispatch self m))
     = map (\<lambda>(i, session). (session, m\<lparr>hops := hops m @ [wm_uuid self]\<rparr>))
         (filter (\<lambda>(i, session). uuid session \<noteq> originUUID m
                     \<and> uuid session \<notin> Val ` set (hops m @ [wm_uuid self]))
            (sessions self))"
  using assms
  by (simp add: dispatch_is_broadcast dispatch_broadcast_def sends_of_forward_broadcast)

lemma cycle_run:
  assumes "a \<noteq> b" "a \<noteq> c" "b \<noteq> c"
  shows "map_option (\<lambda>final. (queue final, map fst (delivered final),
                        map (\<lambda>(f, t, m). (f, t, hops m)) (posted final)))
     (net_run 4 (net_broadcast (cycle a b c) a d au))
   = Some ([], [b, c, c, b], [(a, b, [a]), (a, c, [a]), (b, c, [a, b]), (c, b, [a, c])])"
  using assms
  by (simp add: numeral_eq_Suc net_broadcast_def cycle_def peer_def direct_def broadcast_def
      WindowMessage_def EventManager_property_def new_WindowSession_def net_step_def dispatch_def
      dispatch_broadcast_def invoke_def indexOf_def getp_def action_defs Let_def)

lemma posts_of_invoke [simp]: "posts_of table (invoke slot args @ es) = posts_of table es"
  by (simp add: invoke_def split: option.splits)

lemma posts_of_forward_broadcast:
  "posts_of table (forward_broadcast m sub)
     = concat (map (\<lambda>(i, session). session_send (Suc (length table)) table session m)
         (filter (\<lambda>(i, session). uuid session \<noteq> originUUID m \<and> uuid session \<notin> Val ` set (hops m))
            sub))"
  by (induction sub) (auto simp add: indexOf_absent)

lemma posts_of_dispatch_broadcast:
  "posts_of table (snd (dispatch_broadcast self m))
     = concat (map (\<lambda>(i, session).
                      session_send (Suc (length table)) table session
                        (m\<lparr>hops := hops m @ [wm_uuid self]\<rparr>))
         (filter (\<lambda>(i, session). uuid session \<noteq> originUUID m
                     \<and> uuid session \<notin> Val ` set (hops m @ [wm_uuid self]))
            (sessions self)))"
  by (simp add: dispatch_broadcast_def posts_of_forward_broadcast)

lemma map_of_star_hub:
  "map_of (nodes (star hub leaves)) hub
     = Some (snd (peer hub (map (\<lambda>(n, x). direct n x) (enumerate 0 leaves))))"
  by (simp add: star_def peer_def)

lemma map_of_leaves:
  "x \<in> set leaves \<Longrightarrow> map_of (map (\<lambda>x. peer x [direct 0 hub]) leaves) x = Some (snd (peer x [direct 0 hub]))"
  by (induction leaves) (auto simp add: peer_def)

lemma map_of_star_leaf:
  "x \<in> set leaves \<Longrightarrow> x \<noteq> hub \<Longrightarrow>
   map_of (nodes (star hub leaves)) x = Some (snd (peer x [direct 0 hub]))"
  using map_of_leaves [of x leaves hub] by (simp add: star_def) (simp add: peer_def)

lemma hub_posts:
  "concat (map (\<lambda>(i, session). session_send (Suc n) table session m)
      (filter (\<lambda>(i, session). uuid session \<noteq> Undefined \<and> uuid session \<notin> Val ` H)
         (map (\<lambda>(n, x). direct n x) (enumerate k leaves))))
   = map (\<lambda>x. (x, m)) (filter (\<lambda>x. x \<notin> H) leaves)"
  by (induction leaves arbitrary: k) (auto simp add: direct_def new_WindowSession_def)

lemma net_step_Some:
  "map_of (nodes net) h = Some self \<Longrightarrow>
   net_step h m net
     = net\<lparr> nodes := AList.update h (fst (dispatch self m)) (nodes net),
            queue := tl (queue net) @ posts_of (sessions self) (snd (dispatch self m)),
            delivered := delivered net @ [(h, m)],
            posted := posted net
                        @ map (\<lambda>(to, m'). (h, to, m')) (posts_of (sessions self) (snd (dispatch self m))) \<rparr>"
  by (simp add: net_step_def Let_def split: prod.splits)

lemma net_step_leaf:
  assumes "x \<in> set leaves" and "x \<noteq> hub" and "nodes net = nodes (star hub leaves)"
    and "action m = BROADCAST" and "destinationUUID m = None" and "hub \<in> set (hops m)"
  shows "net_step x m net = net\<lparr>queue := tl (queue net), delivered := delivered net @ [(x, m)]\<rparr>"
proof -
  let ?w = "snd (peer x [direct 0 hub])"
  have n: "map_of (nodes net) x = Some ?w"
    using assms by (simp add: map_of_star_leaf)
  have d: "dispatch ?w m = dispatch_broadcast ?w m"
    using assms by (simp add: dispatch_is_broadcast getp_def)
  have p: "posts_of (sessions ?w) (snd (dispatch_broadcast ?w m)) = []"
    using assms by (simp add: posts_of_dispatch_broadcast) (simp add: peer_def direct_def)
  have f: "fst (dispatch_broadcast ?w m) = ?w"
    by (simp add: dispatch_broadcast_def)
  show ?thesis
    using n p f by (simp add: net_step_Some [OF n] d update_triv)
qed

lemma net_run_leaves:
  assumes "set xs \<subseteq> set leaves" and "hub \<notin> set leaves" and "nodes net = nodes (star hub leaves)"
    and "action m = BROADCAST" and "destinationUUID m = None" and "hub \<in> set (hops m)"
    and "queue net = map (\<lambda>x. (x, m)) xs"
  shows "net_run (length xs) net
     = Some (net\<lparr>queue := [], delivered := delivered net @ map (\<lambda>x. (x, m)) xs\<rparr>)"
  using assms
proof (induction xs arbitrary: net)
  case Nil
  then show ?case by simp
next
  case (Cons x xs)
  then have x: "x \<in> set leaves" "x \<noteq> hub" by auto
  have s: "net_step x m net = net\<lparr>queue := map (\<lambda>x. (x, m)) xs, delivered := delivered net @ [(x, m)]\<rparr>"
    using net_step_leaf [OF x Cons.prems(3-6)] Cons.prems(7) by simp
  have "net_run (length xs) (net_step x m net)
      = Some ((net_step x m net)\<lparr>queue := [],
               delivered := delivered (net_step x m net) @ map (\<lambda>x. (x, m)) xs\<rparr>)"
    using Cons.prems by (intro Cons.IH) (simp_all add: s)
  then show ?case
    using Cons.prems(7) by (simp add: s)
qed

lemma count_distinct:
  "distinct xs \<Longrightarrow> length (filter (\<lambda>y. y = x) xs) = (if x \<in> set xs then 1 else 0)"
  by (induction xs) auto

lemma star_fields [simp]:
  "queue (star hub leaves) = []" "delivered (star hub leaves) = []"
  "posted (star hub leaves) = []"
  by (simp_all add: star_def)

lemma star_run:
  assumes "distinct (hub # leaves)" and "L \<in> set leaves"
  shows "net_run (Suc (length (filter (\<lambda>x. x \<noteq> L) leaves)))
           (net_broadcast (star hub leaves) L d au)
     = Some \<lparr> nodes = nodes (star hub leaves), queue = [],
              delivered = (hub, WindowMessage 0 BROADCAST Undefined Undefined Undefined Undefined d au
                                  \<lparr>hops := [L]\<rparr>)
                          # map (\<lambda>x. (x, WindowMessage 0 BROADCAST Undefined Undefined Undefined
                                           Undefined d au \<lparr>hops := [L, hub]\<rparr>))
                              (filter (\<lambda>x. x \<noteq> L) leaves),
              posted = (L, hub, WindowMessage 0 BROADCAST Undefined Undefined Undefined Undefined d au
                                  \<lparr>hops := [L]\<rparr>)
                       # map (\<lambda>x. (hub, x, WindowMessage 0 BROADCAST Undefined Undefined Undefined
                                           Undefined d au \<lparr>hops := [L, hub]\<rparr>))
                              (filter (\<lambda>x. x \<noteq> L) leaves) \<rparr>"
proof -
  let ?m1 = "WindowMessage 0 BROADCAST Undefined Undefined Undefined Undefined d au\<lparr>hops := [L]\<rparr>"
  let ?m2 = "WindowMessage 0 BROADCAST Undefined Undefined Undefined Undefined d au\<lparr>hops := [L, hub]\<rparr>"
  let ?others = "filter (\<lambda>x. x \<noteq> L) leaves"
  let ?hubw = "snd (peer hub (map (\<lambda>(n, x). direct n x) (enumerate 0 leaves)))"
  have hub: "hub \<notin> set leaves" and L: "L \<noteq> hub" using assms by auto
  have b: "broadcast (snd (peer L [direct 0 hub])) d au = [Send (snd (direct 0 hub)) ?m1]"
    by (simp add: broadcast_def peer_def direct_def EventManager_property_def Let_def
        WindowMessage_def)
  have net1: "net_broadcast (star hub leaves) L d au
      = (star hub leaves)\<lparr>queue := [(hub, ?m1)], posted := [(L, hub, ?m1)]\<rparr>"
    using assms(2) L
    by (simp add: net_broadcast_def map_of_star_leaf b)
       (simp add: peer_def direct_def star_def new_WindowSession_def)
  let ?net1 = "(star hub leaves)\<lparr>queue := [(hub, ?m1)], posted := [(L, hub, ?m1)]\<rparr>"
  have m1: "action ?m1 = BROADCAST" "destinationUUID ?m1 = None" "originUUID ?m1 = Undefined"
    "hops ?m1 = [L]"
    by (simp_all add: WindowMessage_def)
  have d: "dispatch ?hubw ?m1 = dispatch_broadcast ?hubw ?m1"
    using m1 by (simp add: dispatch_is_broadcast getp_def)
  have "{x \<in> set leaves. x \<noteq> L \<and> x \<noteq> hub} = {x \<in> set leaves. x \<noteq> L}"
    using hub by auto
  then have flt: "filter (\<lambda>x. x \<notin> set [L, hub]) leaves = ?others"
    using hub by (auto intro: filter_cong)
  have p: "posts_of (sessions ?hubw) (snd (dispatch_broadcast ?hubw ?m1))
      = map (\<lambda>x. (x, ?m2)) ?others"
    unfolding posts_of_dispatch_broadcast
    using hub_posts [of _ _ ?m2 "set [L, hub]" 0 leaves] flt m1
    by (simp add: peer_def)
  have f: "fst (dispatch_broadcast ?hubw ?m1) = ?hubw"
    by (simp add: dispatch_broadcast_def)
  have n: "map_of (nodes ?net1) hub = Some ?hubw"
    by (simp add: map_of_star_hub)
  have step: "net_step hub ?m1 ?net1
      = (star hub leaves)\<lparr> queue := map (\<lambda>x. (x, ?m2)) ?others, delivered := [(hub, ?m1)],
             posted := (L, hub, ?m1) # map (\<lambda>x. (hub, x, ?m2)) ?others \<rparr>"
    using p f map_of_star_hub [of hub leaves]
    by (simp add: net_step_Some [OF n] d update_triv comp_def)
  let ?net2 = "(star hub leaves)\<lparr> queue := map (\<lambda>x. (x, ?m2)) ?others, delivered := [(hub, ?m1)],
             posted := (L, hub, ?m1) # map (\<lambda>x. (hub, x, ?m2)) ?others \<rparr>"
  have "net_run (length ?others) ?net2
      = Some (?net2\<lparr>queue := [], delivered := delivered ?net2 @ map (\<lambda>x. (x, ?m2)) ?others\<rparr>)"
    using hub
    by (intro net_run_leaves [where hub = hub and leaves = leaves])
       (auto simp add: WindowMessage_def)
  then show ?thesis
    unfolding net1 by (simp add: step)
qed

text \<open>
  C2. A BROADCAST message that is handled here (not redirected) is sent on, with the uuid
  of the manager appended to its hops, exactly to the sessions whose uuid is neither the
  originUUID of the message nor in that hop list. In the cycle of three windows \<open>a\<close>,
  \<open>b\<close>, \<open>c\<close> a broadcast of \<open>a\<close> ends after four events: \<open>b\<close> and \<open>c\<close> each
  forward it once (to each other), nothing is forwarded after that, and no message is
  left.
\<close>

theorem broadcast_loop_prevention:
  assumes "action m = BROADCAST"
    and "getp (destinationUUID m) = Undefined \<or> getp (destinationUUID m) = Val (wm_uuid self)"
    and "a \<noteq> b" and "a \<noteq> c" and "b \<noteq> c"
  shows "sends_of (snd (dispatch self m))
     = map (\<lambda>(i, session). (session, m\<lparr>hops := hops m @ [wm_uuid self]\<rparr>))
         (filter (\<lambda>(i, session). uuid session \<noteq> originUUID m
                     \<and> uuid session \<notin> Val ` set (hops m @ [wm_uuid self]))
            (sessions self))
   \<and> (\<exists>final. net_run 4 (net_broadcast (cycle a b c) a d au) = Some final
         \<and> queue final = []
         \<and> map fst (delivered final) = [b, c, c, b]
         \<and> map (\<lambda>(f, t, m). (f, t, hops m)) (posted final)
             = [(a, b, [a]), (a, c, [a]), (b, c, [a, b]), (c, b, [a, c])]
         \<and> length (filter (\<lambda>(f, t, m). f = b) (posted final)) = 1
         \<and> length (filter (\<lambda>(f, t, m). f = c) (posted final)) = 1)"
proof -
  from cycle_run [OF assms(3-5), of d au]
  obtain final where f: "net_run 4 (net_broadcast (cycle a b c) a d au) = Some final"
    and q: "queue final = []" and dl: "map fst (delivered final) = [b, c, c, b]"
    and p: "map (\<lambda>(f, t, m). (f, t, hops m)) (posted final)
             = [(a, b, [a]), (a, c, [a]), (b, c, [a, b]), (c, b, [a, c])]"
    by auto
  have cnt: "length (filter (\<lambda>(f, t, m). f = x) (posted final))
      = length (filter (\<lambda>(f, t, h). f = x) (map (\<lambda>(f, t, m). (f, t, hops m)) (posted final)))"
    for x
    by (induction "posted final") (auto simp add: filter_map comp_def case_prod_unfold)
  have "length (filter (\<lambda>(f, t, m). f = b) (posted final)) = 1"
    and "length (filter (\<lambda>(f, t, m). f = c) (posted final)) = 1"
    unfolding cnt p using assms(3-5) by auto
  with f q dl p broadcast_forwarding [OF assms(1,2)] show ?thesis
    by (intro conjI exI [of _ final]) simp_all
qed

theorem broadcast_loop_prevention_witness:
  "action (WindowMessage 0 BROADCAST Undefined Undefined Undefined Undefined (Val (Opaque ''hi''))
            Undefined \<lparr>hops := [''A'']\<rparr>) = BROADCAST
   \<and> getp (destinationUUID (WindowMessage 0 BROADCAST Undefined Undefined Undefined Undefined
            (Val (Opaque ''hi'')) Undefined \<lparr>hops := [''A'']\<rparr>)) = Undefined
   \<and> ''A'' \<noteq> ''B'' \<and> ''A'' \<noteq> ''C'' \<and> ''B'' \<noteq> ''C''
   \<and> sends_of (snd (dispatch (snd (peer ''B'' [direct 0 ''A'', direct 1 ''C'']))
        (WindowMessage 0 BROADCAST Undefined Undefined Undefined Undefined (Val (Opaque ''hi''))
            Undefined \<lparr>hops := [''A'']\<rparr>)))
       = [(snd (direct 1 ''C''),
           WindowMessage 0 BROADCAST Undefined Undefined Undefined Undefined (Val (Opaque ''hi''))
             Undefined \<lparr>hops := [''A'', ''B'']\<rparr>)]
   \<and> (\<exists>final. net_run 4 (net_broadcast (cycle ''A'' ''B'' ''C'') ''A'' (Val (Opaque ''hi''))
                   Undefined) = Some final
         \<and> queue final = []
         \<and> map fst (delivered final) = [''B'', ''C'', ''C'', ''B''])"
  using broadcast_loop_prevention [of "WindowMessage 0 BROADCAST Undefined Undefined Undefined
            Undefined (Val (Opaque ''hi'')) Undefined \<lparr>hops := [''A'']\<rparr>"
      "snd (peer ''B'' [direct 0 ''A'', direct 1 ''C''])" "''A''" "''B''" "''C''"
      "Val (Opaque ''hi'')" Undefined]
  by (auto simp add: WindowMessage_def getp_def peer_def direct_def new_WindowSession_def)

text \<open>
  C8, as the code has it. In the star with hub \<open>hub\<close> and the leaves \<open>leaves\<close>, a
  broadcast of leaf \<open>L\<close> ends; it is handled once by the hub and once by every other
  leaf, and not by \<open>L\<close>; every message that the hub posts has the hops \<open>[L, hub]\<close>.
\<close>

theorem star_broadcast:
  assumes "distinct (hub # leaves)" and "L \<in> set leaves"
  shows "\<exists>final. net_run (Suc (length (filter (\<lambda>x. x \<noteq> L) leaves)))
                   (net_broadcast (star hub leaves) L d au) = Some final
     \<and> queue final = []
     \<and> map fst (delivered final) = hub # filter (\<lambda>x. x \<noteq> L) leaves
     \<and> (\<forall>x \<in> set leaves.
           length (filter (\<lambda>(h, m). h = x) (delivered final)) = (if x = L then 0 else 1))
     \<and> (\<forall>(f, t, m) \<in> set (posted final). f = hub \<longrightarrow> hops m = [L, hub])"
proof -
  have hub: "hub \<notin> set leaves" and L: "L \<noteq> hub" and dl: "distinct leaves" using assms by auto
  have c: "length (filter (\<lambda>(h, m). h = x) (map (\<lambda>y. (y, m2)) xs)) = length (filter (\<lambda>y. y = x) xs)"
    for x :: string and m2 :: message and xs
    by (induction xs) auto
  have "length (filter (\<lambda>y. y = x) (filter (\<lambda>x. x \<noteq> L) leaves)) = (if x = L then 0 else 1)"
    if "x \<in> set leaves" for x
    using that dl count_distinct [of "filter (\<lambda>x. x \<noteq> L) leaves" x] by auto
  then show ?thesis
    using hub L unfolding star_run [OF assms]
    by (auto simp add: c comp_def)
qed

theorem star_broadcast_witness:
  "distinct (''H'' # [''L'', ''X'', ''Y'']) \<and> ''L'' \<in> set [''L'', ''X'', ''Y'']
   \<and> (\<exists>final. net_run 3 (net_broadcast (star ''H'' [''L'', ''X'', ''Y'']) ''L''
                   (Val (Opaque ''hi'')) Undefined) = Some final
        \<and> queue final = []
        \<and> map fst (delivered final) = [''H'', ''X'', ''Y''])"
  using star_broadcast [of "''H''" "[''L'', ''X'', ''Y'']" "''L''" "Val (Opaque ''hi'')" Undefined]
  by (auto simp add: numeral_eq_Suc)

text \<open>
  C8 as stated fails on the hops: with the hub \<open>H\<close> and the leaves \<open>L\<close>, \<open>X\<close>,
  \<open>Y\<close>, the hub receives the broadcast of \<open>L\<close> with the hops \<open>[L]\<close> and sends it
  to \<open>X\<close> and \<open>Y\<close> with the hops \<open>[L, H]\<close>, not \<open>[L]\<close>; so do the messages
  posted in the run of the network.
\<close>

theorem star_hub_appends_itself:
  "sends_of (snd (dispatch (snd (peer ''H'' [direct 0 ''L'', direct 1 ''X'', direct 2 ''Y'']))
       (WindowMessage 0 BROADCAST Undefined Undefined Undefined Undefined (Val (Opaque ''hi''))
          Undefined \<lparr>hops := [''L'']\<rparr>)))
     = [(snd (direct 1 ''X''),
         WindowMessage 0 BROADCAST Undefined Undefined Undefined Undefined (Val (Opaque ''hi''))
           Undefined \<lparr>hops := [''L'', ''H'']\<rparr>),
        (snd (direct 2 ''Y''),
         WindowMessage 0 BROADCAST Undefined Undefined Undefined Undefined (Val (Opaque ''hi''))
           Undefined \<lparr>hops := [''L'', ''H'']\<rparr>)]
   \<and> map_option (\<lambda>final. map (\<lambda>(f, t, m). (f, t, hops m)) (posted final))
       (net_run 3 (net_broadcast (star ''H'' [''L'', ''X'', ''Y'']) ''L'' (Val (Opaque ''hi''))
          Undefined))
     = Some [(''L'', ''H'', [''L'']), (''H'', ''X'', [''L'', ''H'']), (''H'', ''Y'', [''L'', ''H''])]"
proof -
  have "sends_of (snd (dispatch (snd (peer ''H'' [direct 0 ''L'', direct 1 ''X'', direct 2 ''Y'']))
       (WindowMessage 0 BROADCAST Undefined Undefined Undefined Undefined (Val (Opaque ''hi''))
          Undefined \<lparr>hops := [''L'']\<rparr>)))
     = [(snd (direct 1 ''X''),
         WindowMessage 0 BROADCAST Undefined Undefined Undefined Undefined (Val (Opaque ''hi''))
           Undefined \<lparr>hops := [''L'', ''H'']\<rparr>),
        (snd (direct 2 ''Y''),
         WindowMessage 0 BROADCAST Undefined Undefined Undefined Undefined (Val (Opaque ''hi''))
           Undefined \<lparr>hops := [''L'', ''H'']\<rparr>)]"
    by (simp add: dispatch_def dispatch_broadcast_def WindowMessage_def peer_def direct_def
        new_WindowSession_def invoke_def indexOf_def getp_def action_defs)
  moreover have "map_option (\<lambda>final. map (\<lambda>(f, t, m). (f, t, hops m)) (posted final))
       (net_run 3 (net_broadcast (star ''H'' [''L'', ''X'', ''Y'']) ''L'' (Val (Opaque ''hi''))
          Undefined))
     = Some [(''L'', ''H'', [''L'']), (''H'', ''X'', [''L'', ''H'']), (''H'', ''Y'', [''L'', ''H''])]"
    using star_run [of "''H''" "[''L'', ''X'', ''Y'']" "''L''" "Val (Opaque ''hi'')" Undefined]
    by (simp add: numeral_eq_Suc)
  ultimately show ?thesis by simp
qed

text \<open>
  In the older revision the window \<open>B\<close>, with sessions to \<open>A\<close> and \<open>C\<close>, sends a
  broadcast of \<open>A\<close> back to \<open>A\<close> as well as on to \<open>C\<close>, unchanged: nothing stops the
  message from going round.
\<close>

lemma legacy_broadcast_returns_to_sender:
  "legacy_broadcast (snd (peer ''A'' [direct 0 ''B''])) (Val (Opaque ''hi'')) Undefined
     = [Send (snd (direct 0 ''B''))
          (WindowMessage 0 BROADCAST Undefined Undefined Undefined Undefined (Val (Opaque ''hi''))
             Undefined)]
   \<and> sends_of (snd (legacy_dispatch_broadcast (snd (peer ''B'' [direct 0 ''A'', direct 1 ''C'']))
         (WindowMessage 0 BROADCAST Undefined Undefined Undefined Undefined (Val (Opaque ''hi''))
            Undefined)))
       = [(snd (direct 0 ''A''),
           WindowMessage 0 BROADCAST Undefined Undefined Undefined Undefined (Val (Opaque ''hi''))
             Undefined),
          (snd (direct 1 ''C''),
           WindowMessage 0 BROADCAST Undefined Undefined Undefined Undefined (Val (Opaque ''hi''))
             Undefined)]"
  by (simp add: legacy_broadcast_def legacy_dispatch_broadcast_def EventManager_property_def
      WindowMessage_def peer_def direct_def new_WindowSession_def invoke_def)

section \<open>Properties of the constructor and of the public methods\<close>

text \<open>
  C9. For every message built by the constructor, each of the optional fields
  destinationType, destinationUUID, data and authentication is a property of the result
  exactly when the argument is not \<open>undefined\<close>, and then holds the argument (a field
  whose argument is left out is omitted, it is not set to \<open>null\<close>); the hop list is
  empty.
\<close>

theorem WindowMessage_optional_fields:
  "destinationType (WindowMessage n a ot ou dt du d au) = (if dt = Undefined then None else Some dt)
   \<and> destinationUUID (WindowMessage n a ot ou dt du d au) = (if du = Undefined then None else Some du)
   \<and> data (WindowMessage n a ot ou dt du d au) = (if d = Undefined then None else Some d)
   \<and> authentication (WindowMessage n a ot ou dt du d au) = (if au = Undefined then None else Some au)
   \<and> hops (WindowMessage n a ot ou dt du d au) = []"
  by (simp add: WindowMessage_def)




text \<open>
  C10. \<open>sessionAvailable(type)\<close> returns false on an empty session table and true when
  the first session enumerated has the requested type; when the first session has another
  type, the call throws a ReferenceError (for the unbound identifier \<open>message\<close>) and
  returns nothing.
\<close>

theorem sessionAvailable_cases:
  "(sessions this = [] \<longrightarrow> sessionAvailable this t = Inr False)
   \<and> (\<forall>i session rest. sessions this = (i, session) # rest \<longrightarrow> type session = t
          \<longrightarrow> sessionAvailable this t = Inr True)
   \<and> (\<forall>i session rest. sessions this = (i, session) # rest \<longrightarrow> type session \<noteq> t
          \<longrightarrow> sessionAvailable this t = Inl ReferenceError)"
  by (simp add: sessionAvailable_def)

theorem sessionAvailable_cases_witness:
  "sessionAvailable (snd (peer ''H'' [])) (Val ''G'') = Inr False
   \<and> sessionAvailable (snd (peer ''H'' [direct 0 ''G'', direct 1 ''K''])) (Val ''G'') = Inr True
   \<and> sessionAvailable (snd (peer ''H'' [direct 0 ''G'', direct 1 ''K''])) (Val ''K'')
       = Inl ReferenceError"
  using sessionAvailable_cases [of "snd (peer ''H'' [])" "Val ''G''"]
    sessionAvailable_cases [of "snd (peer ''H'' [direct 0 ''G'', direct 1 ''K''])" "Val ''G''"]
    sessionAvailable_cases [of "snd (peer ''H'' [direct 0 ''G'', direct 1 ''K''])" "Val ''K''"]
  by (simp add: peer_def direct_def new_WindowSession_def)

text \<open>
  Every message that \<open>broadcast\<close> hands to a session: the origin fields are what
  \<open>this.manager\<close> holds under \<open>type\<close> and \<open>uuid\<close>, that is \<open>undefined\<close>.
\<close>

lemma broadcast_envelope:
  "broadcast this d au =
     map (\<lambda>(i, session). Send session
            \<lparr> number = 0, action = BROADCAST, originType = Undefined, originUUID = Undefined,
              destinationType = None, destinationUUID = None,
              data = (if d = Undefined then None else Some d),
              authentication = (if au = Undefined then None else Some au),
              hops = [wm_uuid this] \<rparr>) (sessions this)"
  by (simp add: broadcast_def WindowMessage_def EventManager_property_def Let_def)

text \<open>
  C4. The manager with uuid \<open>A\<close> and type \<open>A\<close> and one session, to \<open>B\<close>, broadcasts:
  the message handed to the session has action BROADCAST, carries the data and the
  authentication, and its hop list is \<open>[A]\<close>; but its originType and originUUID are
  \<open>undefined\<close>, not the type and uuid of the manager.
\<close>

theorem broadcast_origin_undefined:
  "broadcast (snd (peer ''A'' [direct 0 ''B''])) (Val (Opaque ''hello'')) (Val ''token'') =
     [Send (snd (direct 0 ''B''))
        \<lparr> number = 0, action = BROADCAST, originType = Undefined, originUUID = Undefined,
          destinationType = None, destinationUUID = None,
          data = Some (Val (Opaque ''hello'')), authentication = Some (Val ''token''),
          hops = [''A''] \<rparr>]
   \<and> wm_uuid (snd (peer ''A'' [direct 0 ''B''])) = ''A''
   \<and> wm_type (snd (peer ''A'' [direct 0 ''B''])) = Val ''A''"
  by (simp add: broadcast_def WindowMessage_def EventManager_property_def Let_def peer_def
      direct_def)

end
